theory Spec2Isabelle
  imports Complex_Main "HOL-Library.Sublist"
begin

section \<open>Document AI Processor: the processing pipeline of document_ai_app.py\<close>

text \<open>
  The program is one Streamlit script. Pressing the button runs a linear pipeline:
  check the API key, pick the input text (an uploaded file wins over pasted text),
  build a prompt, call the chat completion endpoint, parse the reply as JSON, show
  statistics and offer a download.

  The embedding keeps that shape. Everything the script shows on the page or asks of a
  collaborator is appended to an event log, in program order, so that "before any call"
  and "no error message" are statements about that log. The libraries the script calls
  (PyPDF2, python-docx, the UTF-8 codec, the OpenAI client, the json module and
  \<^verbatim>\<open>st.progress\<close>) are not part of the script; they are fields of a record
  \<open>world\<close>, and every theorem holds for every world. For the round trip through
  \<^verbatim>\<open>json.dumps\<close> and \<^verbatim>\<open>json.loads\<close> the two functions are also written out, from the
  documentation of the json module.

  Python \<^verbatim>\<open>str\<close> is modelled as \<open>string\<close>, so a character is a code point below 256.
  A Python int is an \<open>int\<close>. A Python float is a \<open>pyfloat\<close>: a rational (the value of
  a finite double; the sign of zero is not kept), an infinity or NaN. The script adds and
  divides these numbers. Integer addition is exact and is written out; what the
  interpreter does as soon as a float takes part (rounding, overflow to an infinity, an
  OverflowError for an integer too large for a float) is a collaborator as well.
\<close>

subsection \<open>Data\<close>

type_synonym bytes = "nat list"

text \<open>The uploaded file: \<^verbatim>\<open>file.type\<close> and \<^verbatim>\<open>file.getvalue()\<close>.\<close>

record upload =
  file_type :: string
  getvalue :: bytes

datatype pyfloat = Finite rat | PosInf | NegInf | NaN

text \<open>A number in Python arithmetic\<close>

datatype pynum = PyInt int | PyFloat pyfloat

text \<open>The value \<^verbatim>\<open>json.loads\<close> returns: None, bool, int, float, str, list, dict.
  A dict is an association list in insertion order.\<close>

datatype json =
    JNull
  | JBool bool
  | JInt int
  | JFloat pyfloat
  | JStr string
  | JList "json list"
  | JDict "(string \<times> json) list"

text \<open>Exceptions. \<open>LibraryError\<close> is an exception raised inside a collaborator,
  carried by its message \<^verbatim>\<open>str(e)\<close>.\<close>

datatype exn =
    AttributeError
  | TypeError
  | OverflowError
  | UnicodeDecodeError
  | JSONDecodeError
  | RecursionError
  | ValueError
  | LibraryError string

datatype mode = Automatic | SchemaGuided

text \<open>What one run does, in order. \<open>StErrorExn p e\<close> is \<^verbatim>\<open>st.error(f"{p}{str(e)}")\<close>.
  \<open>ExtractCall\<close> and \<open>CompletionCall\<close> mark the calls of \<^verbatim>\<open>extract_text\<close> and of
  \<^verbatim>\<open>openai.ChatCompletion.create\<close>; the others are the widgets of the same name.
  Headings, columns and the spinner are left out.\<close>

datatype event =
    StError string
  | StErrorExn string exn
  | StSuccess string
  | StJson json
  | StMetricFields nat
  | StMetricAverage pyfloat
  | StProgress pyfloat
  | StDownload string string
  | StCode string
  | ExtractCall upload
  | CompletionCall string string string rat int

text \<open>How a run ends: \<open>Stopped\<close> is \<^verbatim>\<open>st.stop()\<close>; \<open>Interpreted\<close> is the end of the
  \<^verbatim>\<open>try\<close> block after the download button; \<open>InterpretedFallback\<close> is the
  \<^verbatim>\<open>except json.JSONDecodeError\<close> handler; \<open>Failed\<close> is the outer
  \<^verbatim>\<open>except Exception\<close> handler; \<open>Crashed\<close> is an exception no handler catches.\<close>

datatype outcome =
    Stopped
  | Interpreted json
  | InterpretedFallback string
  | Failed exn
  | Crashed exn

text \<open>The collaborators. \<open>pdf_pages\<close> is the list of \<^verbatim>\<open>page.extract_text()\<close> over
  \<^verbatim>\<open>PdfReader(...).pages\<close>, \<open>docx_paragraphs\<close> the list of \<^verbatim>\<open>para.text\<close> over
  \<^verbatim>\<open>Document(...).paragraphs\<close>; both may raise. \<open>utf8_decode\<close> is
  \<^verbatim>\<open>str(b, "utf-8")\<close>, \<open>None\<close> when it raises. \<open>chat_completion\<close> takes the key, the
  model, the prompt, the temperature and the token limit and gives the reply's content.
  \<open>json_loads\<close> gives the parsed value or the exception raised: JSONDecodeError for
  text that is not JSON, and also RecursionError or ValueError, which the parser raises
  on very deep nesting and on over-long integer literals. \<open>json_dumps\<close> is
  \<^verbatim>\<open>json.dumps(v, indent=2)\<close>. \<open>float_sum\<close> is \<^verbatim>\<open>sum\<close> on a list of numbers of
  which at least one is a float, and \<open>true_divide\<close> is \<^verbatim>\<open>x / n\<close> for a positive count
  \<open>n\<close>; both are \<open>None\<close> when they raise OverflowError, the only exception arithmetic
  on numbers raises here. \<open>st_progress\<close> gives the exception the progress bar raises for
  a value it does not accept. \<open>float_repr\<close> is \<^verbatim>\<open>float.__repr__\<close> and \<open>float_of_string\<close>
  is \<^verbatim>\<open>float\<close> on a number literal.\<close>

record world =
  pdf_pages :: "bytes \<Rightarrow> exn + string list"
  docx_paragraphs :: "bytes \<Rightarrow> exn + string list"
  utf8_decode :: "bytes \<Rightarrow> string option"
  chat_completion :: "string \<Rightarrow> string \<Rightarrow> string \<Rightarrow> rat \<Rightarrow> int \<Rightarrow> exn + string"
  json_loads :: "string \<Rightarrow> exn + json"
  json_dumps :: "json \<Rightarrow> exn + string"
  float_sum :: "pynum list \<Rightarrow> pyfloat option"
  true_divide :: "pynum \<Rightarrow> nat \<Rightarrow> pyfloat option"
  st_progress :: "pyfloat \<Rightarrow> exn option"
  float_repr :: "pyfloat \<Rightarrow> string"
  float_of_string :: "string \<Rightarrow> pyfloat"

text \<open>The widget values the button handler reads. \<open>schema_area\<close> is the content of the
  schema text area, which exists only in schema-guided mode.\<close>

record inputs =
  api_key :: string
  model :: string
  extraction_mode :: mode
  temperature :: rat
  max_tokens :: int
  uploaded_file :: "upload option"
  text_input :: string
  schema_area :: string

subsection \<open>Strings\<close>

definition nl :: string where
  "nl = [CHR 0x0A]"

text \<open>\<^verbatim>\<open>sep.join(xs)\<close>\<close>

fun join :: "string \<Rightarrow> string list \<Rightarrow> string" where
  "join sep [] = []"
| "join sep [x] = x"
| "join sep (x # y # ys) = x @ sep @ join sep (y # ys)"

text \<open>\<^verbatim>\<open>str.lower\<close> on code points below 256: the letters A to Z and the Latin-1
  capitals U+00C0 to U+00DE (without the multiplication sign U+00D7) move up by 32.\<close>

definition upper_lower :: "(char \<times> char) list" where
  "upper_lower =
     zip ''ABCDEFGHIJKLMNOPQRSTUVWXYZ'' ''abcdefghijklmnopqrstuvwxyz'' @
     zip [CHR 0xC0, CHR 0xC1, CHR 0xC2, CHR 0xC3, CHR 0xC4, CHR 0xC5, CHR 0xC6, CHR 0xC7,
          CHR 0xC8, CHR 0xC9, CHR 0xCA, CHR 0xCB, CHR 0xCC, CHR 0xCD, CHR 0xCE, CHR 0xCF,
          CHR 0xD0, CHR 0xD1, CHR 0xD2, CHR 0xD3, CHR 0xD4, CHR 0xD5, CHR 0xD6,
          CHR 0xD8, CHR 0xD9, CHR 0xDA, CHR 0xDB, CHR 0xDC, CHR 0xDD, CHR 0xDE]
         [CHR 0xE0, CHR 0xE1, CHR 0xE2, CHR 0xE3, CHR 0xE4, CHR 0xE5, CHR 0xE6, CHR 0xE7,
          CHR 0xE8, CHR 0xE9, CHR 0xEA, CHR 0xEB, CHR 0xEC, CHR 0xED, CHR 0xEE, CHR 0xEF,
          CHR 0xF0, CHR 0xF1, CHR 0xF2, CHR 0xF3, CHR 0xF4, CHR 0xF5, CHR 0xF6,
          CHR 0xF8, CHR 0xF9, CHR 0xFA, CHR 0xFB, CHR 0xFC, CHR 0xFD, CHR 0xFE]"

definition lower_char :: "char \<Rightarrow> char" where
  "lower_char c = (case map_of upper_lower c of Some d \<Rightarrow> d | None \<Rightarrow> c)"

definition lower :: "string \<Rightarrow> string" where
  "lower s = map lower_char s"

text \<open>\<^verbatim>\<open>needle in hay\<close> on strings\<close>

fun contains :: "string \<Rightarrow> string \<Rightarrow> bool" where
  "contains needle [] = (needle = [])"
| "contains needle (c # cs) = (prefix needle (c # cs) \<or> contains needle cs)"

text \<open>\<^verbatim>\<open>"confidence" in str(k).lower()\<close>; the keys of a parsed object are strings.\<close>

definition confidence_key :: "string \<Rightarrow> bool" where
  "confidence_key k = contains ''confidence'' (lower k)"

subsection \<open>Text extraction (lines 18 to 41)\<close>

text \<open>The result is the log of \<^verbatim>\<open>st.error\<close> calls and either the exception that
  leaves the function or the value returned, \<open>None\<close> for Python's None.\<close>

definition extract_text :: "world \<Rightarrow> upload \<Rightarrow> event list \<times> (exn + string option)" where
  "extract_text w file =
     (if file_type file = ''application/pdf'' then
        (case pdf_pages w (getvalue file) of
           Inr pages \<Rightarrow> ([], Inr (Some (join nl pages)))
         | Inl e \<Rightarrow> ([StErrorExn ''PDF error: '' e], Inr None))
      else if file_type file =
          ''application/vnd.openxmlformats-officedocument.wordprocessingml.document'' then
        (case docx_paragraphs w (getvalue file) of
           Inr paras \<Rightarrow> ([], Inr (Some (join nl paras)))
         | Inl e \<Rightarrow> ([StErrorExn ''Word error: '' e], Inr None))
      else if file_type file = ''text/plain'' then
        (case utf8_decode w (getvalue file) of
           Some s \<Rightarrow> ([], Inr (Some s))
         | None \<Rightarrow> ([], Inl UnicodeDecodeError))
      else ([StError (''Unsupported file type: '' @ file_type file)], Inr None))"

subsection \<open>The prompt (lines 81 to 93 and 116 to 145)\<close>

text \<open>\<^verbatim>\<open>schema\<close> is None unless the mode is schema-guided; then it is the text
  area's content, the empty string when nothing was typed.\<close>

definition schema :: "inputs \<Rightarrow> string option" where
  "schema inp =
     (if extraction_mode inp = SchemaGuided then Some (schema_area inp) else None)"

text \<open>What an f-string puts for \<^verbatim>\<open>{schema}\<close>\<close>

fun format_schema :: "string option \<Rightarrow> string" where
  "format_schema None = ''None''"
| "format_schema (Some s) = s"

text \<open>The sixteen blanks that indent every line of the two templates\<close>

definition ind :: string where
  "ind = replicate 16 (CHR '' '')"

definition build_prompt :: "mode \<Rightarrow> string option \<Rightarrow> string \<Rightarrow> string" where
  "build_prompt m sch input_text =
     (if m = SchemaGuided then
        nl @ ind @ ''Convert this document into JSON following exactly this schema:'' @ nl
        @ ind @ format_schema sch @ nl
        @ ind @ nl
        @ ind @ ''Document content:'' @ nl
        @ ind @ input_text @ nl
        @ ind @ nl
        @ ind @ ''Rules:'' @ nl
        @ ind @ ''1. Include all available data'' @ nl
        @ ind @ ''2. Mark missing fields as null'' @ nl
        @ ind @ ''3. Add \"_confidence\" scores (0-1) for each field'' @ nl
        @ ind @ ''4. Return ONLY valid JSON'' @ nl
        @ ind
      else
        nl @ ind
        @ ''Analyze this document and extract structured data as comprehensive JSON.'' @ nl
        @ ind @ ''Include:'' @ nl
        @ ind @ ''- Key entities (people, organizations, locations)'' @ nl
        @ ind @ ''- Important dates and numbers'' @ nl
        @ ind @ ''- Relationships between entities'' @ nl
        @ ind @ ''- Key-value pairs'' @ nl
        @ ind @ ''- Document structure'' @ nl
        @ ind @ nl
        @ ind @ ''Add confidence scores for each extracted field.'' @ nl
        @ ind @ ''Return ONLY the JSON output.'' @ nl
        @ ind @ nl
        @ ind @ ''Document:'' @ nl
        @ ind @ input_text @ nl
        @ ind)"

subsection \<open>The confidence analysis (lines 178 to 196)\<close>

text \<open>\<^verbatim>\<open>any("confidence" in str(k).lower() for k in json_data.keys())\<close> on the items
  of a dict\<close>

definition any_confidence_key :: "(string \<times> json) list \<Rightarrow> bool" where
  "any_confidence_key kvs = list_ex (\<lambda>kv. confidence_key (fst kv)) kvs"

text \<open>The nested function \<^verbatim>\<open>find_confidences\<close>. It appends to the list
  \<^verbatim>\<open>confidences\<close> of the enclosing scope; here the list is passed in and returned.
  \<open>find_items\<close> is the loop over \<^verbatim>\<open>data.items()\<close>, \<open>find_each\<close> the loop over a
  list. The value of a confidence key is appended as it is and not walked.\<close>

fun find_confidences :: "json \<Rightarrow> json list \<Rightarrow> json list"
  and find_items :: "(string \<times> json) list \<Rightarrow> json list \<Rightarrow> json list"
  and find_each :: "json list \<Rightarrow> json list \<Rightarrow> json list" where
  "find_confidences (JDict kvs) confidences = find_items kvs confidences"
| "find_confidences (JList xs) confidences = find_each xs confidences"
| "find_confidences JNull confidences = confidences"
| "find_confidences (JBool b) confidences = confidences"
| "find_confidences (JInt i) confidences = confidences"
| "find_confidences (JFloat f) confidences = confidences"
| "find_confidences (JStr s) confidences = confidences"
| "find_items [] confidences = confidences"
| "find_items ((k, v) # kvs) confidences =
     find_items kvs
       (if confidence_key k then confidences @ [v] else find_confidences v confidences)"
| "find_each [] confidences = confidences"
| "find_each (item # xs) confidences = find_each xs (find_confidences item confidences)"

text \<open>A value as a number in an addition: an int, a float, and a bool as 1 or 0. A str,
  None, a list and a dict are not numbers.\<close>

fun as_number :: "json \<Rightarrow> pynum option" where
  "as_number (JInt i) = Some (PyInt i)"
| "as_number (JFloat f) = Some (PyFloat f)"
| "as_number (JBool b) = Some (PyInt (if b then 1 else 0))"
| "as_number JNull = None"
| "as_number (JStr s) = None"
| "as_number (JList xs) = None"
| "as_number (JDict kvs) = None"

fun is_int :: "pynum \<Rightarrow> bool" where
  "is_int (PyInt i) = True"
| "is_int (PyFloat f) = False"

fun ints_of :: "pynum list \<Rightarrow> int list" where
  "ints_of [] = []"
| "ints_of (PyInt i # ns) = i # ints_of ns"
| "ints_of (PyFloat f # ns) = ints_of ns"

text \<open>\<^verbatim>\<open>sum\<close> on a list of numbers, starting at the int 0: the exact sum while every
  item is an int, the interpreter's float sum otherwise.\<close>

definition number_sum :: "world \<Rightarrow> pynum list \<Rightarrow> exn + pynum" where
  "number_sum w ns =
     (if list_all is_int ns then Inr (PyInt (sum_list (ints_of ns)))
      else (case float_sum w ns of
              None \<Rightarrow> Inl OverflowError
            | Some f \<Rightarrow> Inr (PyFloat f)))"

text \<open>\<^verbatim>\<open>sum(xs)\<close> adds the items from the left. \<open>seen\<close> holds the numbers added so
  far. An item that is not a number raises TypeError, unless adding the numbers before it
  has raised already.\<close>

fun sum_items :: "world \<Rightarrow> pynum list \<Rightarrow> json list \<Rightarrow> exn + pynum" where
  "sum_items w seen [] = number_sum w seen"
| "sum_items w seen (v # vs) =
     (case as_number v of
        Some n \<Rightarrow> sum_items w (seen @ [n]) vs
      | None \<Rightarrow> (case number_sum w seen of Inl e \<Rightarrow> Inl e | Inr acc \<Rightarrow> Inl TypeError))"

definition py_sum :: "world \<Rightarrow> json list \<Rightarrow> exn + pynum" where
  "py_sum w xs = sum_items w [] xs"

text \<open>Lines 178 to 196: the widgets shown and the exception raised, if any.
  \<^verbatim>\<open>json_data.keys()\<close> exists only on a dict.\<close>

definition confidence_analysis :: "world \<Rightarrow> json \<Rightarrow> event list \<times> exn option" where
  "confidence_analysis w json_data =
     (case json_data of
        JDict kvs \<Rightarrow>
          (if any_confidence_key kvs then
             (let confidences = find_confidences json_data [] in
              if confidences \<noteq> [] then
                (case py_sum w confidences of
                   Inl e \<Rightarrow> ([], Some e)
                 | Inr summed \<Rightarrow>
                     (case true_divide w summed (length confidences) of
                        None \<Rightarrow> ([], Some OverflowError)
                      | Some avg_conf \<Rightarrow>
                          (case st_progress w avg_conf of
                             Some e \<Rightarrow> ([StMetricAverage avg_conf], Some e)
                           | None \<Rightarrow> ([StMetricAverage avg_conf, StProgress avg_conf], None))))
              else ([], None))
           else ([], None))
      | _ \<Rightarrow> ([], Some AttributeError))"

subsection \<open>Interpreting the reply (lines 159 to 209)\<close>

definition invalid_json_message :: string where
  "invalid_json_message = ''The AI returned invalid JSON. Below is the raw Response''"

text \<open>\<^verbatim>\<open>st.metric("Total Fields", len(json_data))\<close>, for a dict only\<close>

fun total_fields :: "json \<Rightarrow> event list" where
  "total_fields (JDict kvs) = [StMetricFields (length kvs)]"
| "total_fields _ = []"

text \<open>Lines 162 to 204, after the reply has been parsed: the widgets shown and the
  exception raised, if any.\<close>

definition show_result :: "world \<Rightarrow> json \<Rightarrow> event list \<times> exn option" where
  "show_result w json_data =
     (let shown = [StSuccess ''Extraction complete!'', StJson json_data]
                    @ total_fields json_data
      in case confidence_analysis w json_data of
           (ev, Some e) \<Rightarrow> (shown @ ev, Some e)
         | (ev, None) \<Rightarrow>
             (case json_dumps w json_data of
                Inl e \<Rightarrow> (shown @ ev, Some e)
              | Inr data \<Rightarrow> (shown @ ev @ [StDownload data ''extracted_data.json''], None)))"

text \<open>The body of the inner \<^verbatim>\<open>try\<close> (lines 160 to 204)\<close>

definition try_body :: "world \<Rightarrow> string \<Rightarrow> event list \<times> (exn + json)" where
  "try_body w completion =
     (case json_loads w completion of
        Inl e \<Rightarrow> ([], Inl e)
      | Inr json_data \<Rightarrow>
          (case show_result w json_data of
             (ev, Some e) \<Rightarrow> (ev, Inl e)
           | (ev, None) \<Rightarrow> (ev, Inr json_data)))"

text \<open>The inner \<^verbatim>\<open>try\<close> with its handler, which catches JSONDecodeError and nothing
  else: the log, and either the exception that leaves it or the way it ends.\<close>

definition interpret_reply :: "world \<Rightarrow> string \<Rightarrow> event list \<times> (exn + outcome)" where
  "interpret_reply w completion =
     (case try_body w completion of
        (ev, Inr json_data) \<Rightarrow> (ev, Inr (Interpreted json_data))
      | (ev, Inl e) \<Rightarrow>
          (if e = JSONDecodeError then
             (ev @ [StError invalid_json_message, StCode completion],
              Inr (InterpretedFallback completion))
           else (ev, Inl e)))"

subsection \<open>The button handler (lines 96 to 212)\<close>

text \<open>The outer \<^verbatim>\<open>try\<close> (lines 114 to 212): prompt, completion call, interpretation;
  any exception is reported as "Processing failed".\<close>

definition analyse :: "world \<Rightarrow> inputs \<Rightarrow> string \<Rightarrow> event list \<times> outcome" where
  "analyse w inp input_text =
     (let prompt = build_prompt (extraction_mode inp) (schema inp) input_text;
          call = CompletionCall (api_key inp) (model inp) prompt
                   (temperature inp) (max_tokens inp)
      in case chat_completion w (api_key inp) (model inp) prompt
                (temperature inp) (max_tokens inp) of
           Inl e \<Rightarrow> ([call, StErrorExn ''Processing failed: '' e], Failed e)
         | Inr result \<Rightarrow>
             (case interpret_reply w result of
                (ev, Inl e) \<Rightarrow> (call # ev @ [StErrorExn ''Processing failed: '' e], Failed e)
              | (ev, Inr out) \<Rightarrow> (call # ev, out)))"

definition process :: "world \<Rightarrow> inputs \<Rightarrow> event list \<times> outcome" where
  "process w inp =
     (if api_key inp = [] then ([StError ''Please enter your OpenAI API key''], Stopped)
      else
        (case uploaded_file inp of
           Some file \<Rightarrow>
             (case extract_text w file of
                (ev, Inl e) \<Rightarrow> (ExtractCall file # ev, Crashed e)
              | (ev, Inr None) \<Rightarrow> (ExtractCall file # ev, Stopped)
              | (ev, Inr (Some input_text)) \<Rightarrow>
                  (if input_text = [] then (ExtractCall file # ev, Stopped)
                   else (case analyse w inp input_text of
                           (ev', out) \<Rightarrow> (ExtractCall file # ev @ ev', out))))
         | None \<Rightarrow>
             (if text_input inp \<noteq> [] then analyse w inp (text_input inp)
              else ([StError ''Please upload a file or paste text''], Stopped))))"

subsection \<open>Reading a log\<close>


fun is_extract_call :: "event \<Rightarrow> bool" where
  "is_extract_call (ExtractCall f) = True"
| "is_extract_call _ = False"

fun is_completion_call :: "event \<Rightarrow> bool" where
  "is_completion_call (CompletionCall k m p t n) = True"
| "is_completion_call _ = False"



fun failed :: "outcome \<Rightarrow> bool" where
  "failed (Failed e) = True"
| "failed _ = False"



subsection \<open>The confidence values as the specification words them\<close>




subsection \<open>The json module as its documentation describes it\<close>

text \<open>The script serialises with \<^verbatim>\<open>json.dumps(json_data, indent=2)\<close> and parses with
  \<^verbatim>\<open>json.loads\<close>. Both belong to the standard library. They are written out here from
  the library's documentation: the grammar of RFC 8259 with the three extra constants
  NaN, Infinity and -Infinity that the decoder accepts, and the layout the encoder
  produces for an indent of 2 with the default separators and \<^verbatim>\<open>ensure_ascii\<close>. The
  limits of the interpreter (recursion depth, length of integer literals) are not part
  of this description, and an escape for a code point of 256 or more has no value in
  \<open>string\<close>, so the decoder below rejects it. How a finite float is printed and read is
  left to the interpreter: \<open>float_repr\<close> and \<open>float_of_string\<close>.\<close>

definition is_digit :: "char \<Rightarrow> bool" where
  "is_digit c = (48 \<le> (of_char c :: nat) \<and> (of_char c :: nat) \<le> 57)"

definition digit_char :: "nat \<Rightarrow> char" where
  "digit_char d = ''0123456789'' ! d"

definition digit_value :: "char \<Rightarrow> nat" where
  "digit_value c = of_char c - 48"

text \<open>\<^verbatim>\<open>str(n)\<close> for a natural number and for an int\<close>

fun digits :: "nat \<Rightarrow> string" where
  "digits n = (if n < 10 then [digit_char n] else digits (n div 10) @ [digit_char (n mod 10)])"

declare digits.simps [simp del]

definition int_str :: "int \<Rightarrow> string" where
  "int_str i = (if i < 0 then CHR ''-'' # digits (nat (- i)) else digits (nat i))"
































subsection \<open>Sample replies and sample collaborators\<close>

text \<open>The doubles written 0.9, 0.7, 1.6 and 0.8. In double arithmetic 0.9 + 0.7 is 1.6 and
  1.6 / 2 is 0.8.\<close>

definition d09 :: pyfloat where
  "d09 = Finite (8106479329266893 / 9007199254740992)"

definition d07 :: pyfloat where
  "d07 = Finite (3152519739159347 / 4503599627370496)"

definition d16 :: pyfloat where
  "d16 = Finite (3602879701896397 / 2251799813685248)"

definition d08 :: pyfloat where
  "d08 = Finite (3602879701896397 / 4503599627370496)"

text \<open>Replies of the model and the values \<^verbatim>\<open>json.loads\<close> gives for them. The first is
  the example of the specification.\<close>

definition alice_text :: string where
  "alice_text = ''{\"name\": \"Alice\", \"name_confidence\": 0.9, \"age_confidence\": 0.7}''"

definition alice_json :: json where
  "alice_json = JDict [(''name'', JStr ''Alice''), (''name_confidence'', JFloat d09),
                       (''age_confidence'', JFloat d07)]"

definition array_text :: string where
  "array_text = ''[1]''"

definition array_json :: json where
  "array_json = JList [JInt 1]"

definition nested_text :: string where
  "nested_text = ''{\"person\": {\"name\": \"Alice\", \"name_confidence\": 0.9}}''"

definition nested_json :: json where
  "nested_json =
     JDict [(''person'', JDict [(''name'', JStr ''Alice''), (''name_confidence'', JFloat d09)])]"

definition wrapped_text :: string where
  "wrapped_text = ''{\"confidence\": {\"score_confidence\": 0.5}}''"

definition wrapped_json :: json where
  "wrapped_json = JDict [(''confidence'', JDict [(''score_confidence'', JFloat (Finite (1 / 2)))])]"

definition label_text :: string where
  "label_text = ''{\"confidence\": \"high\"}''"

definition label_json :: json where
  "label_json = JDict [(''confidence'', JStr ''high'')]"

definition label_nested_text :: string where
  "label_nested_text = ''{\"details\": {\"confidence\": \"high\"}}''"

definition label_nested_json :: json where
  "label_nested_json = JDict [(''details'', JDict [(''confidence'', JStr ''high'')])]"

definition flag_text :: string where
  "flag_text = ''{\"confidence\": true}''"

definition flag_json :: json where
  "flag_json = JDict [(''confidence'', JBool True)]"

definition prose_text :: string where
  "prose_text = ''Sure, here's your JSON: {...}''"

text \<open>Fifteen hundred opening brackets: not JSON, and nested too deeply for the parser,
  which raises RecursionError before it reaches the end of the text.\<close>

definition deep_text :: string where
  "deep_text = replicate 1500 (CHR ''['')"

text \<open>\<^verbatim>\<open>json.loads\<close> on the sample replies; it raises JSONDecodeError on \<open>prose_text\<close>,
  which is not in the table.\<close>

definition sample_loads :: "string \<Rightarrow> exn + json" where
  "sample_loads t =
     (case map_of [(alice_text, alice_json), (array_text, array_json),
                   (nested_text, nested_json), (wrapped_text, wrapped_json),
                   (label_text, label_json), (label_nested_text, label_nested_json),
                   (flag_text, flag_json)] t of
        Some v \<Rightarrow> Inr v
      | None \<Rightarrow> (if t = deep_text then Inl RecursionError else Inl JSONDecodeError))"

text \<open>\<^verbatim>\<open>json.dumps(v, indent=2)\<close> on the sample values that reach the download button\<close>

definition sample_dumps :: "json \<Rightarrow> exn + string" where
  "sample_dumps j =
     (if j = alice_json then
        Inr (''{'' @ nl @ ''  \"name\": \"Alice\",'' @ nl @ ''  \"name_confidence\": 0.9,'' @ nl
             @ ''  \"age_confidence\": 0.7'' @ nl @ ''}'')
      else if j = nested_json then
        Inr (''{'' @ nl @ ''  \"person\": {'' @ nl @ ''    \"name\": \"Alice\",'' @ nl
             @ ''    \"name_confidence\": 0.9'' @ nl @ ''  }'' @ nl @ ''}'')
      else if j = label_nested_json then
        Inr (''{'' @ nl @ ''  \"details\": {'' @ nl @ ''    \"confidence\": \"high\"'' @ nl
             @ ''  }'' @ nl @ ''}'')
      else if j = flag_json then
        Inr (''{'' @ nl @ ''  \"confidence\": true'' @ nl @ ''}'')
      else Inr [])"

text \<open>Three sample documents: the bytes stand for a PDF of two pages, a Word file of
  two paragraphs and the text "hi"; the empty byte string decodes to the empty text.\<close>

definition sample_pdf :: bytes where
  "sample_pdf = [37, 80, 68, 70]"

definition sample_docx :: bytes where
  "sample_docx = [80, 75, 3, 4]"

definition sample_txt :: bytes where
  "sample_txt = [104, 105]"

text \<open>The collaborators on the samples. The world replies \<open>reply\<close> to every prompt.\<close>

definition sample_world :: "string \<Rightarrow> world" where
  "sample_world reply =
     \<lparr> pdf_pages = (\<lambda>b. if b = sample_pdf then Inr [''Invoice 42'', ''Total: 10 EUR'']
                           else Inl (LibraryError ''EOF marker not found'')),
       docx_paragraphs = (\<lambda>b. if b = sample_docx then Inr [''Dear Alice,'', ''see you soon.'']
                                 else Inl (LibraryError ''File is not a zip file'')),
       utf8_decode = map_of [([], []), (sample_txt, ''hi'')],
       chat_completion = (\<lambda>k m p t n. Inr reply),
       json_loads = sample_loads,
       json_dumps = sample_dumps,
       float_sum = (\<lambda>ns. if ns = [PyFloat d09, PyFloat d07] then Some d16 else None),
       true_divide = (\<lambda>x n. if x = PyFloat d16 \<and> n = 2 then Some d08
                               else if x = PyInt 1 \<and> n = 1 then Some (Finite 1)
                               else None),
       st_progress = (\<lambda>v. if v = d08 \<or> v = Finite 1 then None
                             else Some (LibraryError ''Progress Value has invalid value'')),
       float_repr = (\<lambda>f. if f = d09 then ''0.9'' else if f = d07 then ''0.7''
                            else if f = Finite (1 / 2) then ''0.5'' else ''0.0''),
       float_of_string = (\<lambda>s. if s = ''0.9'' then d09 else if s = ''0.7'' then d07
                                 else if s = ''0.5'' then Finite (1 / 2) else Finite 0) \<rparr>"

text \<open>A run on pasted text, with a key, in automatic mode and with the default settings\<close>

definition sample_inputs :: inputs where
  "sample_inputs =
     \<lparr> api_key = ''sk-test'', model = ''gpt-4-turbo-preview'', extraction_mode = Automatic,
       temperature = 3 / 10, max_tokens = 1500, uploaded_file = None,
       text_input = ''Alice is 30.'', schema_area = [] \<rparr>"

text \<open>The same run in schema-guided mode with nothing typed into the schema area\<close>

definition empty_schema_inputs :: inputs where
  "empty_schema_inputs = sample_inputs \<lparr> extraction_mode := SchemaGuided, schema_area := [] \<rparr>"

text \<open>Uploads: the three sample documents and an empty text file\<close>

definition pdf_upload :: upload where
  "pdf_upload = \<lparr> file_type = ''application/pdf'', getvalue = sample_pdf \<rparr>"

definition docx_upload :: upload where
  "docx_upload =
     \<lparr> file_type = ''application/vnd.openxmlformats-officedocument.wordprocessingml.document'',
       getvalue = sample_docx \<rparr>"

definition text_upload :: upload where
  "text_upload = \<lparr> file_type = ''text/plain'', getvalue = sample_txt \<rparr>"

definition empty_upload :: upload where
  "empty_upload = \<lparr> file_type = ''text/plain'', getvalue = [] \<rparr>"

section \<open>Properties\<close>

subsection \<open>Strings and the walk\<close>

text \<open>\<open>contains\<close> is the substring relation.\<close>

lemma contains_sublist: "contains xs ys = sublist xs ys"
  by (induction ys) (auto simp: sublist_Cons_right)
















subsection \<open>Unfolding sets and facts about the samples\<close>

lemmas sample_defs =
  sample_world_def sample_loads_def sample_dumps_def sample_inputs_def
  alice_text_def alice_json_def array_text_def array_json_def nested_text_def nested_json_def
  wrapped_text_def wrapped_json_def label_text_def label_json_def label_nested_text_def
  label_nested_json_def flag_text_def flag_json_def prose_text_def
  sample_pdf_def sample_docx_def sample_txt_def

lemma sample_doubles [simp]:
  "d08 \<noteq> Finite 1" "Finite 1 \<noteq> d08" "d09 \<noteq> d07" "d07 \<noteq> d09"
  by (simp_all add: d08_def d09_def d07_def)

lemma sample_keys [simp]:
  "confidence_key ''name_confidence''" "confidence_key ''age_confidence''"
  "confidence_key ''score_confidence''" "confidence_key ''confidence''"
  "\<not> confidence_key ''name''" "\<not> confidence_key ''person''" "\<not> confidence_key ''details''"
  by (simp_all add: confidence_key_def lower_def lower_char_def upper_lower_def)


lemmas run_defs = process_def analyse_def interpret_reply_def try_body_def show_result_def
  confidence_analysis_def py_sum_def number_sum_def schema_def

subsection \<open>C1: the average confidence\<close>





subsection \<open>C2: a reply that is valid JSON but not an object\<close>

text \<open>C2. The claim says that valid JSON of any top-level shape gives a structured result
  and never the failed state. Line 174 asks whether the value is a dict before counting
  its fields; line 178 calls \<^verbatim>\<open>json_data.keys()\<close> without asking. For the reply
  \<^verbatim>\<open>[1]\<close> the value is shown, the call raises AttributeError, the outer handler reports
  "Processing failed", and no download is offered.\<close>

theorem array_reply_fails:
  "json_loads (sample_world array_text) array_text = Inr array_json \<and>
   process (sample_world array_text) sample_inputs =
     ([CompletionCall ''sk-test'' ''gpt-4-turbo-preview''
         (build_prompt Automatic None ''Alice is 30.'') (3 / 10) 1500,
       StSuccess ''Extraction complete!'', StJson array_json,
       StErrorExn ''Processing failed: '' AttributeError],
      Failed AttributeError)"
  by (simp add: sample_defs run_defs)

subsection \<open>C3: schema-guided mode with an empty schema\<close>

text \<open>C3 as stated fails: with a key, pasted text and an empty schema area the completion
  endpoint is called, with the prompt built around the empty schema.\<close>

theorem empty_schema_counterexample:
  "extraction_mode empty_schema_inputs = SchemaGuided \<and>
   schema empty_schema_inputs = Some [] \<and>
   CompletionCall ''sk-test'' ''gpt-4-turbo-preview''
       (build_prompt SchemaGuided (Some []) ''Alice is 30.'') (3 / 10) 1500
     \<in> set (fst (process (sample_world alice_text) empty_schema_inputs))"
  by (simp add: empty_schema_inputs_def sample_inputs_def schema_def process_def analyse_def
        Let_def split: sum.splits prod.splits)

lemma analyse_calls:
  "CompletionCall (api_key inp) (model inp)
       (build_prompt (extraction_mode inp) (schema inp) txt) (temperature inp) (max_tokens inp)
     \<in> set (fst (analyse w inp txt))"
  by (simp add: analyse_def Let_def split: sum.splits prod.splits)

lemma extract_text_returns_quietly:
  "snd (extract_text w f) = Inr (Some s) \<Longrightarrow> extract_text w f = ([], Inr (Some s))"
  by (auto simp: extract_text_def split: if_splits sum.splits option.splits)

text \<open>C3, as amended. The script never looks at the schema. In schema-guided mode with a
  key, the completion endpoint is called with the prompt built around the content of the
  schema area as it is, empty or not, in both cases in which the script has an input
  text: no file is uploaded and the pasted text is not empty, or a file is uploaded and
  the text extracted from it is not empty.\<close>

theorem schema_not_checked:
  assumes "extraction_mode inp = SchemaGuided" and "api_key inp \<noteq> []"
  shows "(uploaded_file inp = None \<and> text_input inp \<noteq> [] \<longrightarrow>
            CompletionCall (api_key inp) (model inp)
                (build_prompt SchemaGuided (Some (schema_area inp)) (text_input inp))
                (temperature inp) (max_tokens inp)
              \<in> set (fst (process w inp))) \<and>
         (uploaded_file inp = Some f \<and> snd (extract_text w f) = Inr (Some s) \<and> s \<noteq> [] \<longrightarrow>
            CompletionCall (api_key inp) (model inp)
                (build_prompt SchemaGuided (Some (schema_area inp)) s)
                (temperature inp) (max_tokens inp)
              \<in> set (fst (process w inp)))"
proof (intro conjI impI)
  assume "uploaded_file inp = None \<and> text_input inp \<noteq> []"
  then have "process w inp = analyse w inp (text_input inp)"
    using assms(2) by (simp add: process_def)
  then show "CompletionCall (api_key inp) (model inp)
                (build_prompt SchemaGuided (Some (schema_area inp)) (text_input inp))
                (temperature inp) (max_tokens inp)
              \<in> set (fst (process w inp))"
    using analyse_calls [of inp "text_input inp" w] assms(1) by (simp add: schema_def)
next
  assume h: "uploaded_file inp = Some f \<and> snd (extract_text w f) = Inr (Some s) \<and> s \<noteq> []"
  then have e: "extract_text w f = ([], Inr (Some s))"
    by (intro extract_text_returns_quietly) simp
  obtain ev out where a: "analyse w inp s = (ev, out)"
    by (cases "analyse w inp s")
  have "process w inp = (ExtractCall f # ev, out)"
    using h e a assms(2) by (simp add: process_def)
  then show "CompletionCall (api_key inp) (model inp)
                (build_prompt SchemaGuided (Some (schema_area inp)) s)
                (temperature inp) (max_tokens inp)
              \<in> set (fst (process w inp))"
    using analyse_calls [of inp s w] a assms(1) by (simp add: schema_def)
qed

theorem schema_not_checked_witness:
  "extraction_mode empty_schema_inputs = SchemaGuided \<and>
   api_key empty_schema_inputs = ''sk-test'' \<and>
   schema_area empty_schema_inputs = [] \<and>
   uploaded_file empty_schema_inputs = None \<and>
   text_input empty_schema_inputs = ''Alice is 30.'' \<and>
   CompletionCall ''sk-test'' ''gpt-4-turbo-preview''
       (build_prompt SchemaGuided (Some []) ''Alice is 30.'') (3 / 10) 1500
     \<in> set (fst (process (sample_world alice_text) empty_schema_inputs)) \<and>
   snd (extract_text (sample_world alice_text) text_upload) = Inr (Some ''hi'') \<and>
   CompletionCall ''sk-test'' ''gpt-4-turbo-preview''
       (build_prompt SchemaGuided (Some []) ''hi'') (3 / 10) 1500
     \<in> set (fst (process (sample_world alice_text)
                     (empty_schema_inputs \<lparr> uploaded_file := Some text_upload \<rparr>)))"
proof -
  let ?w = "sample_world alice_text"
  let ?u = "empty_schema_inputs \<lparr> uploaded_file := Some text_upload \<rparr>"
  have m: "extraction_mode empty_schema_inputs = SchemaGuided" "extraction_mode ?u = SchemaGuided"
    by (simp_all add: empty_schema_inputs_def)
  have k: "api_key empty_schema_inputs \<noteq> []" "api_key ?u \<noteq> []"
    by (simp_all add: empty_schema_inputs_def sample_inputs_def)
  have p: "uploaded_file empty_schema_inputs = None \<and> text_input empty_schema_inputs \<noteq> []"
    by (simp add: empty_schema_inputs_def sample_inputs_def)
  have e: "snd (extract_text ?w text_upload) = Inr (Some ''hi'')"
    by (simp add: extract_text_def text_upload_def sample_world_def sample_txt_def)
  have u: "uploaded_file ?u = Some text_upload \<and>
           snd (extract_text ?w text_upload) = Inr (Some ''hi'') \<and> ''hi'' \<noteq> []"
    using e by simp
  show ?thesis
    using schema_not_checked [OF m(1) k(1), where w = ?w, THEN conjunct1, THEN mp, OF p]
      schema_not_checked [OF m(2) k(2), where w = ?w and f = text_upload and s = "''hi''",
        THEN conjunct2, THEN mp, OF u]
      e
    by (simp add: empty_schema_inputs_def sample_inputs_def)
qed

subsection \<open>C4: a missing key\<close>

text \<open>C4. With an empty key the run shows the key message and stops; nothing is extracted
  and the completion endpoint is not called, whatever was uploaded or pasted.\<close>

theorem missing_credential_first:
  assumes "api_key inp = []"
  shows "process w inp = ([StError ''Please enter your OpenAI API key''], Stopped) \<and>
         \<not> list_ex is_extract_call (fst (process w inp)) \<and>
         \<not> list_ex is_completion_call (fst (process w inp))"
  using assms by (simp add: process_def)

theorem missing_credential_first_witness:
  "api_key (sample_inputs \<lparr> api_key := [], uploaded_file := Some text_upload \<rparr>) = [] \<and>
   extract_text (sample_world alice_text) text_upload = ([], Inr (Some ''hi'')) \<and>
   process (sample_world alice_text)
       (sample_inputs \<lparr> api_key := [], uploaded_file := Some text_upload \<rparr>)
     = ([StError ''Please enter your OpenAI API key''], Stopped)"
proof -
  have h: "api_key (sample_inputs \<lparr> api_key := [], uploaded_file := Some text_upload \<rparr>) = []"
    by simp
  have e: "extract_text (sample_world alice_text) text_upload = ([], Inr (Some ''hi''))"
    by (simp add: extract_text_def text_upload_def sample_world_def sample_txt_def)
  show ?thesis
    using missing_credential_first [OF h, of "sample_world alice_text"] h e by simp
qed

subsection \<open>C5: a reply that is not JSON\<close>

lemma shorter_than_deep: "length t < 1500 \<Longrightarrow> t \<noteq> deep_text"
  by (auto simp: deep_text_def)

lemma samples_not_deep:
  "alice_text \<noteq> deep_text" "array_text \<noteq> deep_text" "nested_text \<noteq> deep_text"
  "wrapped_text \<noteq> deep_text" "label_text \<noteq> deep_text" "label_nested_text \<noteq> deep_text"
  "flag_text \<noteq> deep_text" "prose_text \<noteq> deep_text"
  by (rule shorter_than_deep, simp add: sample_defs)+

lemma deep_not_samples:
  "deep_text \<noteq> alice_text" "deep_text \<noteq> array_text" "deep_text \<noteq> nested_text"
  "deep_text \<noteq> wrapped_text" "deep_text \<noteq> label_text" "deep_text \<noteq> label_nested_text"
  "deep_text \<noteq> flag_text" "deep_text \<noteq> prose_text"
  using samples_not_deep by simp_all

lemma sample_loads_deep: "sample_loads deep_text = Inl RecursionError"
  by (simp add: sample_loads_def deep_not_samples samples_not_deep)

lemma sample_loads_prose: "sample_loads prose_text = Inl JSONDecodeError"
  using samples_not_deep(8) by (simp add: sample_defs)

text \<open>C5 as stated fails. Fifteen hundred opening brackets are not JSON, but the parser
  raises RecursionError on them and not JSONDecodeError; the handler of line 206 does not
  catch it, the outer handler reports "Processing failed", and the reply is not shown.\<close>

theorem deep_reply_counterexample:
  "json_loads (sample_world deep_text) deep_text = Inl RecursionError \<and>
   process (sample_world deep_text) sample_inputs =
     ([CompletionCall ''sk-test'' ''gpt-4-turbo-preview''
         (build_prompt Automatic None ''Alice is 30.'') (3 / 10) 1500,
       StErrorExn ''Processing failed: '' RecursionError],
      Failed RecursionError)"
  by (simp add: sample_world_def sample_loads_deep sample_inputs_def process_def analyse_def
        interpret_reply_def try_body_def schema_def)

text \<open>C5, as amended. When \<^verbatim>\<open>json.loads\<close> raises JSONDecodeError on the reply, the run
  shows the invalid-JSON message and the reply itself, unchanged, and ends in the fallback
  state.\<close>

theorem invalid_json_falls_back:
  assumes "json_loads w t = Inl JSONDecodeError"
  shows "interpret_reply w t =
           ([StError invalid_json_message, StCode t], Inr (InterpretedFallback t)) \<and>
         (chat_completion w (api_key inp) (model inp)
              (build_prompt (extraction_mode inp) (schema inp) txt)
              (temperature inp) (max_tokens inp) = Inr t \<longrightarrow>
            analyse w inp txt =
              ([CompletionCall (api_key inp) (model inp)
                  (build_prompt (extraction_mode inp) (schema inp) txt)
                  (temperature inp) (max_tokens inp),
                StError invalid_json_message, StCode t],
               InterpretedFallback t))"
  using assms by (simp add: interpret_reply_def try_body_def analyse_def Let_def)

theorem invalid_json_falls_back_witness:
  "json_loads (sample_world prose_text) prose_text = Inl JSONDecodeError \<and>
   prose_text = ''Sure, here's your JSON: {...}'' \<and>
   process (sample_world prose_text) sample_inputs =
     ([CompletionCall ''sk-test'' ''gpt-4-turbo-preview''
         (build_prompt Automatic None ''Alice is 30.'') (3 / 10) 1500,
       StError invalid_json_message, StCode ''Sure, here's your JSON: {...}''],
      InterpretedFallback ''Sure, here's your JSON: {...}'')"
proof -
  have h: "json_loads (sample_world prose_text) prose_text = Inl JSONDecodeError"
    by (simp add: sample_world_def sample_loads_prose)
  have c: "chat_completion (sample_world prose_text) (api_key sample_inputs) (model sample_inputs)
              (build_prompt (extraction_mode sample_inputs) (schema sample_inputs) (text_input sample_inputs))
              (temperature sample_inputs) (max_tokens sample_inputs) = Inr prose_text"
    by (simp add: sample_world_def)
  have p: "process (sample_world prose_text) sample_inputs =
           analyse (sample_world prose_text) sample_inputs (text_input sample_inputs)"
    by (simp add: process_def sample_inputs_def)
  show ?thesis
    using invalid_json_falls_back [OF h, of sample_inputs "text_input sample_inputs"] h c p
    by (simp add: sample_inputs_def schema_def prose_text_def)
qed

subsection \<open>C6: the schema-guided prompt\<close>

text \<open>C6. For every input text and every schema string the schema-guided prompt contains
  the schema as it is, the line that asks for confidence scores from 0 to 1 for each
  field, and the line that asks for valid JSON only.\<close>

theorem schema_prompt_contents:
  "sublist s (build_prompt SchemaGuided (Some s) txt) \<and>
   sublist ''3. Add \"_confidence\" scores (0-1) for each field''
     (build_prompt SchemaGuided (Some s) txt) \<and>
   sublist ''4. Return ONLY valid JSON'' (build_prompt SchemaGuided (Some s) txt)"
proof (intro conjI)
  let ?head = "nl @ ind @ ''Convert this document into JSON following exactly this schema:''
               @ nl @ ind"
  let ?mid = "nl @ ind @ nl @ ind @ ''Document content:'' @ nl @ ind @ txt @ nl @ ind @ nl
              @ ind @ ''Rules:'' @ nl @ ind @ ''1. Include all available data'' @ nl
              @ ind @ ''2. Mark missing fields as null'' @ nl @ ind"
  let ?three = "''3. Add \"_confidence\" scores (0-1) for each field''"
  let ?four = "''4. Return ONLY valid JSON''"
  let ?p = "build_prompt SchemaGuided (Some s) txt"
  have "?p = ?head @ s @ (?mid @ ?three @ nl @ ind @ ?four @ nl @ ind)"
    by (simp add: build_prompt_def)
  then show "sublist s ?p"
    by (simp only: sublist_appendI)
  have "?p = (?head @ s @ ?mid) @ ?three @ (nl @ ind @ ?four @ nl @ ind)"
    by (simp add: build_prompt_def)
  then show "sublist ?three ?p"
    by (simp only: sublist_appendI)
  have "?p = (?head @ s @ ?mid @ ?three @ nl @ ind) @ ?four @ (nl @ ind)"
    by (simp add: build_prompt_def)
  then show "sublist ?four ?p"
    by (simp only: sublist_appendI)
qed

subsection \<open>C7: extraction from a well-formed document\<close>

text \<open>Joining with a separator: the text followed by one more separator is every element
  followed by the separator, in order.\<close>

lemma join_concat: "xs \<noteq> [] \<Longrightarrow> join sep xs @ sep = concat (map (\<lambda>x. x @ sep) xs)"
  by (induction sep xs rule: join.induct) simp_all

lemma join_newline:
  "(xs = [] \<longrightarrow> join nl xs = []) \<and>
   (xs \<noteq> [] \<longrightarrow> join nl xs @ [CHR 0x0A] = concat (map (\<lambda>x. x @ [CHR 0x0A]) xs))"
  using join_concat [of xs nl] by (auto simp: nl_def)

text \<open>C7. When the PDF reader gives the pages' texts, \<^verbatim>\<open>extract_text\<close> shows no error
  and returns every page's text, in order, with a line feed between two pages: the result
  followed by a line feed is every page followed by a line feed, and it is empty for a
  document without pages. Likewise for the paragraphs of a Word document. For plain text
  it returns the UTF-8 decoding of the bytes.\<close>

theorem extract_text_well_formed:
  "(file_type f = ''application/pdf'' \<and> pdf_pages w (getvalue f) = Inr pages \<longrightarrow>
      (\<exists>r. extract_text w f = ([], Inr (Some r)) \<and>
           (pages = [] \<longrightarrow> r = []) \<and>
           (pages \<noteq> [] \<longrightarrow> r @ [CHR 0x0A] = concat (map (\<lambda>p. p @ [CHR 0x0A]) pages)))) \<and>
   (file_type f = ''application/vnd.openxmlformats-officedocument.wordprocessingml.document'' \<and>
    docx_paragraphs w (getvalue f) = Inr paras \<longrightarrow>
      (\<exists>r. extract_text w f = ([], Inr (Some r)) \<and>
           (paras = [] \<longrightarrow> r = []) \<and>
           (paras \<noteq> [] \<longrightarrow> r @ [CHR 0x0A] = concat (map (\<lambda>p. p @ [CHR 0x0A]) paras)))) \<and>
   (file_type f = ''text/plain'' \<and> utf8_decode w (getvalue f) = Some s \<longrightarrow>
      extract_text w f = ([], Inr (Some s)))"
  using join_newline [of pages] join_newline [of paras]
  by (simp add: extract_text_def)

theorem extract_text_well_formed_witness:
  "pdf_pages (sample_world []) (getvalue pdf_upload) = Inr [''Invoice 42'', ''Total: 10 EUR''] \<and>
   extract_text (sample_world []) pdf_upload
     = ([], Inr (Some (''Invoice 42'' @ [CHR 0x0A] @ ''Total: 10 EUR''))) \<and>
   docx_paragraphs (sample_world []) (getvalue docx_upload)
     = Inr [''Dear Alice,'', ''see you soon.''] \<and>
   extract_text (sample_world []) docx_upload
     = ([], Inr (Some (''Dear Alice,'' @ [CHR 0x0A] @ ''see you soon.''))) \<and>
   utf8_decode (sample_world []) (getvalue text_upload) = Some ''hi'' \<and>
   extract_text (sample_world []) text_upload = ([], Inr (Some ''hi''))"
proof -
  let ?w = "sample_world []"
  let ?pages = "[''Invoice 42'', ''Total: 10 EUR'']"
  let ?paras = "[''Dear Alice,'', ''see you soon.'']"
  have p: "file_type pdf_upload = ''application/pdf'' \<and>
           pdf_pages ?w (getvalue pdf_upload) = Inr ?pages"
    by (simp add: pdf_upload_def sample_world_def)
  have d: "file_type docx_upload
             = ''application/vnd.openxmlformats-officedocument.wordprocessingml.document'' \<and>
           docx_paragraphs ?w (getvalue docx_upload) = Inr ?paras"
    by (simp add: docx_upload_def sample_world_def)
  have t: "file_type text_upload = ''text/plain'' \<and>
           utf8_decode ?w (getvalue text_upload) = Some ''hi''"
    by (simp add: text_upload_def sample_world_def sample_txt_def)
  from extract_text_well_formed [where f = pdf_upload and w = ?w and pages = ?pages,
      THEN conjunct1, THEN mp, OF p]
  have 1: "extract_text ?w pdf_upload
             = ([], Inr (Some (''Invoice 42'' @ [CHR 0x0A] @ ''Total: 10 EUR'')))"
    by auto
  from extract_text_well_formed [where f = docx_upload and w = ?w and paras = ?paras,
      THEN conjunct2, THEN conjunct1, THEN mp, OF d]
  have 2: "extract_text ?w docx_upload
             = ([], Inr (Some (''Dear Alice,'' @ [CHR 0x0A] @ ''see you soon.'')))"
    by auto
  from extract_text_well_formed [where f = text_upload and w = ?w and s = "''hi''",
      THEN conjunct2, THEN conjunct2, THEN mp, OF t]
  have 3: "extract_text ?w text_upload = ([], Inr (Some ''hi''))" .
  show ?thesis
    using p d t 1 2 3 by simp
qed

subsection \<open>C9: a confidence value that cannot be added\<close>




subsection \<open>C10: an upload with no text, and pasted text beside an upload\<close>

text \<open>C10. With a key and an uploaded file: when extraction returns the empty string the
  run stops with no message and no result; and the pasted text plays no part in the run,
  whatever it is.\<close>

theorem upload_takes_precedence:
  assumes "api_key inp \<noteq> []" and "uploaded_file inp = Some f"
  shows "(snd (extract_text w f) = Inr (Some []) \<longrightarrow> process w inp = ([ExtractCall f], Stopped)) \<and>
         process w (inp \<lparr> text_input := pasted \<rparr>) = process w inp"
proof (intro conjI impI)
  assume "snd (extract_text w f) = Inr (Some [])"
  then have "extract_text w f = ([], Inr (Some []))"
    by (rule extract_text_returns_quietly)
  then show "process w inp = ([ExtractCall f], Stopped)"
    using assms by (simp add: process_def)
next
  have "analyse w (inp \<lparr> text_input := pasted \<rparr>) s = analyse w inp s" for s
    by (simp add: analyse_def schema_def)
  then show "process w (inp \<lparr> text_input := pasted \<rparr>) = process w inp"
    using assms by (simp add: process_def split: prod.splits sum.splits option.splits)
qed

theorem upload_takes_precedence_witness:
  "api_key (sample_inputs \<lparr> uploaded_file := Some empty_upload \<rparr>) \<noteq> [] \<and>
   extract_text (sample_world alice_text) empty_upload = ([], Inr (Some [])) \<and>
   text_input (sample_inputs \<lparr> uploaded_file := Some empty_upload \<rparr>) = ''Alice is 30.'' \<and>
   process (sample_world alice_text) (sample_inputs \<lparr> uploaded_file := Some empty_upload \<rparr>)
     = ([ExtractCall empty_upload], Stopped) \<and>
   process (sample_world alice_text)
       (sample_inputs \<lparr> uploaded_file := Some empty_upload, text_input := ''Bob is 40.'' \<rparr>)
     = ([ExtractCall empty_upload], Stopped)"
proof -
  let ?inp = "sample_inputs \<lparr> uploaded_file := Some empty_upload \<rparr>"
  have k: "api_key ?inp \<noteq> []"
    by (simp add: sample_inputs_def)
  have u: "uploaded_file ?inp = Some empty_upload"
    by simp
  have e: "extract_text (sample_world alice_text) empty_upload = ([], Inr (Some []))"
    by (simp add: extract_text_def empty_upload_def sample_world_def)
  show ?thesis
    using upload_takes_precedence [OF k u, of "sample_world alice_text" "''Bob is 40.''"] k e
    by (simp add: sample_inputs_def)
qed


subsection \<open>C8: the round trip through the encoder and the decoder\<close>

text \<open>Integers: the digits written for a number are read back as that number.\<close>

lemma below_ten: "d < 10 \<Longrightarrow> d \<in> {0, 1, 2, 3, 4, 5, 6, 7, 8, 9::nat}"
  by auto

lemma digit_char_props:
  assumes "d < 10"
  shows "is_digit (digit_char d)" and "digit_value (digit_char d) = d"
    and "(digit_char d = CHR ''0'') = (d = 0)"
  using below_ten [OF assms]
  by (auto simp: is_digit_def digit_char_def digit_value_def)

lemma digits_nonempty: "digits n \<noteq> []"
  by (induction n rule: digits.induct) (subst digits.simps, simp)

lemma digits_all: "list_all is_digit (digits n)"
proof (induction n rule: digits.induct)
  case (1 n)
  show ?case
  proof (cases "n < 10")
    case True
    then show ?thesis by (subst digits.simps) (simp add: digit_char_props)
  next
    case False
    then have "list_all is_digit (digits (n div 10))" by (rule 1)
    moreover have "is_digit (digit_char (n mod 10))" by (simp add: digit_char_props)
    ultimately show ?thesis using False by (subst digits.simps) simp
  qed
qed














lemma int_str_second:
  "int_str i = c # r \<Longrightarrow> is_digit c \<or> (c = CHR ''-'' \<and> r \<noteq> [] \<and> is_digit (hd r))"
proof -
  have d: "is_digit (hd (digits n))" for n
    using digits_all [of n] digits_nonempty [of n] by (cases "digits n") simp_all
  assume "int_str i = c # r"
  then show ?thesis
    using d [of "nat i"] d [of "nat (- i)"] digits_nonempty [of "nat (- i)"]
    by (auto simp: int_str_def split: if_splits)
qed

















































end
